theory Spec2Isabelle
  imports Complex_Main "HOL-Library.Monad_Syntax"
begin

section \<open>Data model\<close>

text \<open>
  The canvas engine of the map drawing tool lives in two React components:
  \<^verbatim>\<open>DrawingCanvas\<close> (src/components/drawing-canvas.tsx) and \<^verbatim>\<open>MapDrawingTool\<close>
  (src/components/map-drawing-tool.tsx). A JavaScript \<^verbatim>\<open>number\<close> is modelled as a
  \<^typ>\<open>real\<close>: the model has no NaN, no infinities, no signed zero and no rounding.
  HOL's \<open>a / 0\<close> is \<open>0\<close> where JavaScript gives NaN or an infinity, so every statement
  below that depends on a quotient either goes through \<open>divide_checked\<close> or assumes the
  divisor to be nonzero.
\<close>

text \<open>\<^verbatim>\<open>type Point = { x: number; y: number }\<close>; the fields are called \<open>px\<close> and
  \<open>py\<close> so that \<open>x\<close> and \<open>y\<close> stay usable as variables.\<close>

record Point =
  px :: real
  py :: real

text \<open>\<^verbatim>\<open>type Line\<close> of drawing-canvas.tsx (lines 12-21). \<open>line_id\<close> is the field
  \<^verbatim>\<open>id\<close>; the optional \<^verbatim>\<open>labelPosition?\<close> is an \<open>option\<close>.\<close>

record Line =
  line_id :: string
  points :: "Point list"
  color :: string
  opacity :: real
  label :: string
  labelRotation :: real
  labelPosition :: "Point option"
  thickness :: real

record Size =
  width :: real
  height :: real

text \<open>\<^verbatim>\<open>useState<"draw" | "pan" | "rotate" | "drag">("draw")\<close>\<close>

datatype InteractionMode = Draw | Pan | Rotate | Drag

text \<open>
  The state of both components in one record. The fields \<open>lines\<close> \<dots> \<open>panOffset\<close> are
  the \<^verbatim>\<open>useState\<close> cells of \<^verbatim>\<open>MapDrawingTool\<close>; its cells \<^verbatim>\<open>color\<close>,
  \<^verbatim>\<open>opacity\<close>, \<^verbatim>\<open>label\<close>, \<^verbatim>\<open>labelRotation\<close> and \<^verbatim>\<open>thickness\<close> (the side panel's
  edit fields) carry the prefix \<open>edit\<close>, since a \<open>Line\<close> has fields of the same names.
  The fields \<open>canvasSize\<close> \<dots> \<open>cursorPosition\<close> are the cells of \<^verbatim>\<open>DrawingCanvas\<close>.
  \<open>cursorStyle\<close> is \<^verbatim>\<open>containerRef.current.style.cursor\<close> and \<open>consoleLog\<close> collects the
  zoom values that \<^verbatim>\<open>handleWheel\<close> prints with \<^verbatim>\<open>console.log\<close>.

  A handler reads the cells of the render it was created in and queues its writes; the
  model runs one handler per render, so a handler is a function from the state it reads
  to the state after its writes.
\<close>

record state =
  lines :: "Line list"
  currentLine :: "Line option"
  isDrawing :: bool
  selectedLine :: "Line option"
  editColor :: string
  editOpacity :: real
  editLabel :: string
  editLabelRotation :: real
  zoomLevel :: real
  isRotatingLabel :: bool
  editThickness :: real
  panOffset :: Point
  canvasSize :: Size
  imageSize :: Size
  scale :: real
  isPanning :: bool
  lastPanPoint :: Point
  hoveredLabel :: "string option"
  isDraggingLabel :: bool
  rotationStartAngle :: real
  rotationCenter :: "Point option"
  interactionMode :: InteractionMode
  cursorPosition :: "Point option"
  cursorStyle :: string
  consoleLog :: "real list"

text \<open>The initial values of the \<^verbatim>\<open>useState\<close> cells.\<close>

definition initialState :: state where
  "initialState =
     \<lparr>lines = [], currentLine = None, isDrawing = False, selectedLine = None,
      editColor = ''#FF0000'', editOpacity = 100, editLabel = '''', editLabelRotation = 0,
      zoomLevel = 1, isRotatingLabel = False, editThickness = 3,
      panOffset = \<lparr>px = 0, py = 0\<rparr>,
      canvasSize = \<lparr>width = 0, height = 0\<rparr>, imageSize = \<lparr>width = 0, height = 0\<rparr>,
      scale = 1, isPanning = False, lastPanPoint = \<lparr>px = 0, py = 0\<rparr>,
      hoveredLabel = None, isDraggingLabel = False, rotationStartAngle = 0,
      rotationCenter = None, interactionMode = Draw, cursorPosition = None,
      cursorStyle = '''', consoleLog = []\<rparr>"

text \<open>
  What the handlers read from the browser: the canvas element's bounding rectangle
  (\<open>None\<close> when \<^verbatim>\<open>canvasRef.current\<close> is null), the text measurer of the 2D context
  (\<open>None\<close> when there is no context), \<^verbatim>\<open>Date.now().toString()\<close>, the natural size
  of the decoded background image (\<^verbatim>\<open>img.width\<close>, \<^verbatim>\<open>img.height\<close>) and the size of
  the container element (\<^verbatim>\<open>container.clientWidth\<close>, \<^verbatim>\<open>container.clientHeight\<close>).
\<close>

record DOMRect =
  rect_left :: real
  rect_top :: real

record env =
  canvas :: "DOMRect option"
  measureText :: "(string \<Rightarrow> real) option"
  now :: string
  img :: Size
  container :: Size

record MouseEvent =
  clientX :: real
  clientY :: real
  button :: int
  shiftKey :: bool

record WheelEvent = MouseEvent +
  deltaY :: real

section \<open>Geometry\<close>

text \<open>
  JavaScript's \<^verbatim>\<open>a / b\<close> with \<open>b = 0\<close> gives NaN or an infinity, which no real number
  stands for: \<open>None\<close> records that such a division was evaluated.
\<close>

definition divide_checked :: "real \<Rightarrow> real \<Rightarrow> real option" where
  "divide_checked a b = (if b = 0 then None else Some (a / b))"

text \<open>\<^verbatim>\<open>distanceToLineSegment\<close> (drawing-canvas.tsx, lines 887-918).\<close>

definition distanceToLineSegment :: "Point \<Rightarrow> Point \<Rightarrow> Point \<Rightarrow> real option" where
  "distanceToLineSegment point lineStart lineEnd =
     (let A = px point - px lineStart;
          B = py point - py lineStart;
          C = px lineEnd - px lineStart;
          D = py lineEnd - py lineStart;
          dot = A * C + B * D;
          lenSq = C * C + D * D
      in do {
        param \<leftarrow> (if lenSq \<noteq> 0 then divide_checked dot lenSq else Some (- 1));
        let xx = (if param < 0 then px lineStart
                  else if param > 1 then px lineEnd
                  else px lineStart + param * C);
        let yy = (if param < 0 then py lineStart
                  else if param > 1 then py lineEnd
                  else py lineStart + param * D);
        let dx = px point - xx;
        let dy = py point - yy;
        Some (sqrt (dx * dx + dy * dy))
      })"

text \<open>
  \<^verbatim>\<open>Math.atan2(y, x)\<close> on real arguments: the angle of the point \<open>(x, y)\<close>, in
  \<open>(-\<pi>, \<pi>]\<close>, with \<open>atan2 0 0 = 0\<close>.
\<close>

definition atan2 :: "real \<Rightarrow> real \<Rightarrow> real" where
  "atan2 y x =
     (if x > 0 then arctan (y / x)
      else if x < 0 then (if y \<ge> 0 then arctan (y / x) + pi else arctan (y / x) - pi)
      else if y > 0 then pi / 2
      else if y < 0 then - (pi / 2)
      else 0)"

section \<open>Viewport transform\<close>

text \<open>
  \<^verbatim>\<open>const effectiveScale = scale * zoomLevel\<close>,
  \<^verbatim>\<open>const imageX = (canvasSize.width - imageSize.width * zoomLevel) / 2 + panOffset.x\<close>
  and \<^verbatim>\<open>imageY\<close>: the three constants that \<^verbatim>\<open>getImageCoordinates\<close>,
  \<^verbatim>\<open>isPointNearLabel\<close>, \<^verbatim>\<open>isPointNearRotationControl\<close> and \<^verbatim>\<open>handleMouseDown\<close> each
  compute in the same words.
\<close>

definition effectiveScale :: "state \<Rightarrow> real" where
  "effectiveScale s = scale s * zoomLevel s"

definition imageX :: "state \<Rightarrow> real" where
  "imageX s = (width (canvasSize s) - width (imageSize s) * zoomLevel s) / 2 + px (panOffset s)"

definition imageY :: "state \<Rightarrow> real" where
  "imageY s = (height (canvasSize s) - height (imageSize s) * zoomLevel s) / 2 + py (panOffset s)"

text \<open>
  The sizing that \<^verbatim>\<open>img.onload\<close> does once the background image is decoded
  (lines 90-110): fit the image into the container, keeping its aspect ratio.
\<close>

definition imageOnload :: "env \<Rightarrow> state \<Rightarrow> state" where
  "imageOnload en s =
     (let containerWidth = width (container en);
          containerHeight = height (container en);
          scaleX = containerWidth / width (img en);
          scaleY = containerHeight / height (img en);
          baseScale = min scaleX scaleY;
          scaledWidth = width (img en) * baseScale;
          scaledHeight = height (img en) * baseScale
      in s\<lparr>canvasSize := \<lparr>width = containerWidth, height = containerHeight\<rparr>,
           imageSize := \<lparr>width = scaledWidth, height = scaledHeight\<rparr>,
           scale := baseScale\<rparr>)"

text \<open>\<^verbatim>\<open>getCanvasCoordinates\<close> (lines 385-404), for a mouse event.\<close>

definition getCanvasCoordinates :: "env \<Rightarrow> MouseEvent \<Rightarrow> Point" where
  "getCanvasCoordinates en e =
     (case canvas en of
        None \<Rightarrow> \<lparr>px = 0, py = 0\<rparr>
      | Some rect \<Rightarrow> \<lparr>px = clientX e - rect_left rect, py = clientY e - rect_top rect\<rparr>)"

text \<open>The bounds test of \<^verbatim>\<open>getImageCoordinates\<close> (lines 413-418).\<close>

definition withinImageBounds :: "state \<Rightarrow> Point \<Rightarrow> bool" where
  "withinImageBounds s canvasCoords \<longleftrightarrow>
     px canvasCoords \<ge> imageX s \<and>
     px canvasCoords \<le> imageX s + width (imageSize s) * zoomLevel s \<and>
     py canvasCoords \<ge> imageY s \<and>
     py canvasCoords \<le> imageY s + height (imageSize s) * zoomLevel s"

text \<open>\<^verbatim>\<open>getImageCoordinates\<close> (lines 406-426). The result is a \<open>Point\<close> and nothing
  else, as in the source.\<close>

definition getImageCoordinates :: "state \<Rightarrow> Point \<Rightarrow> Point" where
  "getImageCoordinates s canvasCoords =
     (if withinImageBounds s canvasCoords
      then \<lparr>px = (px canvasCoords - imageX s) / effectiveScale s,
            py = (py canvasCoords - imageY s) / effectiveScale s\<rparr>
      else \<lparr>px = 0, py = 0\<rparr>)"

text \<open>
  The renderer's side of the transform. \<^verbatim>\<open>drawCanvas\<close> (lines 191-197) places the image
  at \<open>drawCanvas_origin\<close>, computed from the natural image size, and \<^verbatim>\<open>drawLine\<close>
  (lines 233-236) sends the image-space point \<open>p\<close> to the screen point
  \<open>drawLine_vertex offsetX offsetY effectiveScale p\<close>.
\<close>

definition drawCanvas_origin :: "env \<Rightarrow> state \<Rightarrow> Point" where
  "drawCanvas_origin en s =
     (let effScale = scale s * zoomLevel s;
          scaledWidth = width (img en) * effScale;
          scaledHeight = height (img en) * effScale
      in \<lparr>px = (width (canvasSize s) - scaledWidth) / 2 + px (panOffset s),
          py = (height (canvasSize s) - scaledHeight) / 2 + py (panOffset s)\<rparr>)"

definition drawLine_vertex :: "real \<Rightarrow> real \<Rightarrow> real \<Rightarrow> Point \<Rightarrow> Point" where
  "drawLine_vertex offsetX offsetY effScale p =
     \<lparr>px = offsetX + px p * effScale, py = offsetY + py p * effScale\<rparr>"

section \<open>Hit testing\<close>

text \<open>
  The label anchor in screen space, the block that \<^verbatim>\<open>drawLine\<close> (255-265),
  \<^verbatim>\<open>drawRotationControl\<close> (313-321), \<^verbatim>\<open>isPointNearLabel\<close> (438-446),
  \<^verbatim>\<open>isPointNearRotationControl\<close> (484-492) and \<^verbatim>\<open>handleMouseDown\<close> (538-546) repeat.
  Without a \<^verbatim>\<open>labelPosition\<close> it reads \<^verbatim>\<open>line.points[midIndex]\<close>; on an empty point
  list that is \<^verbatim>\<open>undefined\<close> and reading its \<^verbatim>\<open>x\<close> throws a TypeError: \<open>None\<close>.
\<close>

definition labelAnchor :: "real \<Rightarrow> real \<Rightarrow> real \<Rightarrow> Line \<Rightarrow> Point option" where
  "labelAnchor offsetX offsetY effScale line =
     (case labelPosition line of
        Some lp \<Rightarrow> Some \<lparr>px = offsetX + px lp * effScale, py = offsetY + py lp * effScale\<rparr>
      | None \<Rightarrow>
          (let midIndex = length (points line) div 2 in
           if midIndex < length (points line)
           then (let midPoint = points line ! midIndex in
                 Some \<lparr>px = offsetX + px midPoint * effScale,
                       py = offsetY + py midPoint * effScale - 15\<rparr>)
           else None))"

text \<open>\<^verbatim>\<open>isPointNearLabel\<close> (lines 428-472); \<open>None\<close> is the TypeError of the anchor.\<close>

definition isPointNearLabel :: "env \<Rightarrow> state \<Rightarrow> Point \<Rightarrow> Line \<Rightarrow> bool option" where
  "isPointNearLabel en s canvasCoords line =
     (if label line = [] then Some False
      else do {
        anchor \<leftarrow> labelAnchor (imageX s) (imageY s) (effectiveScale s) line;
        (case measureText en of
           None \<Rightarrow> Some False
         | Some measure_text \<Rightarrow>
             (let textWidth = measure_text (label line);
                  textHeight = 14;
                  padding = 4;
                  rect_x = px anchor - textWidth / 2 - padding;
                  rect_y = py anchor - textHeight / 2 - padding;
                  rect_width = textWidth + padding * 2;
                  rect_height = textHeight + padding * 2
              in Some (px canvasCoords \<ge> rect_x \<and>
                       px canvasCoords \<le> rect_x + rect_width \<and>
                       py canvasCoords \<ge> rect_y \<and>
                       py canvasCoords \<le> rect_y + rect_height)))
      })"

text \<open>\<^verbatim>\<open>isPointNearRotationControl\<close> (lines 474-511).\<close>

definition isPointNearRotationControl :: "env \<Rightarrow> state \<Rightarrow> Point \<Rightarrow> Line \<Rightarrow> bool option" where
  "isPointNearRotationControl en s canvasCoords line =
     (if label line = [] then Some False
      else do {
        anchor \<leftarrow> labelAnchor (imageX s) (imageY s) (effectiveScale s) line;
        (case measureText en of
           None \<Rightarrow> Some False
         | Some measure_text \<Rightarrow>
             (let textWidth = measure_text (label line);
                  padding = 4;
                  iconSize = 16;
                  iconX = px anchor + textWidth / 2 + padding + iconSize / 2;
                  iconY = py anchor;
                  dx = px canvasCoords - iconX;
                  dy = py canvasCoords - iconY;
                  distance = sqrt (dx * dx + dy * dy)
              in Some (distance \<le> iconSize / 2)))
      })"

text \<open>
  \<^verbatim>\<open>findLineAtPoint\<close> (lines 864-884). \<open>hitThreshold\<close> is line 876, where
  \<^verbatim>\<open>line.thickness || 3\<close> replaces a thickness of 0 by 3; \<open>segmentHit\<close> is the inner loop
  over the consecutive point pairs of one line and \<open>findLineIn\<close> the outer loop over the
  lines, which returns the first line hit. A distance that is not a number compares
  false with the threshold.
\<close>

definition hitThreshold :: "state \<Rightarrow> Line \<Rightarrow> real" where
  "hitThreshold s line =
     ((if thickness line = 0 then 3 else thickness line) * 2) / (scale s * zoomLevel s)"

fun segmentHit :: "state \<Rightarrow> Point \<Rightarrow> Line \<Rightarrow> Point list \<Rightarrow> bool" where
  "segmentHit s point line (p1 # p2 # ps) =
     (case distanceToLineSegment point p1 p2 of
        Some distance \<Rightarrow>
          (if distance < hitThreshold s line then True
           else segmentHit s point line (p2 # ps))
      | None \<Rightarrow> segmentHit s point line (p2 # ps))"
| "segmentHit s point line ps = False"

fun findLineIn :: "state \<Rightarrow> Point \<Rightarrow> Line list \<Rightarrow> Line option" where
  "findLineIn s point [] = None"
| "findLineIn s point (line # rest) =
     (if segmentHit s point line (points line) then Some line
      else findLineIn s point rest)"

definition findLineAtPoint :: "state \<Rightarrow> Point \<Rightarrow> Line option" where
  "findLineAtPoint s point = findLineIn s point (lines s)"

text \<open>
  Every line the handlers build has at least one point: \<^verbatim>\<open>handleStartDrawing\<close> seeds
  one and \<^verbatim>\<open>handleDrawing\<close> only appends. On such lines (or lines with a stored
  \<^verbatim>\<open>labelPosition\<close>) the label anchor exists and no handler throws.
\<close>

definition linesWellFormed :: "state \<Rightarrow> bool" where
  "linesWellFormed s \<longleftrightarrow> list_all (\<lambda>line. labelPosition line \<noteq> None \<or> points line \<noteq> []) (lines s)"

section \<open>The callbacks of MapDrawingTool\<close>

text \<open>\<^verbatim>\<open>handleStartDrawing\<close> (map-drawing-tool.tsx, lines 83-101).\<close>

definition handleStartDrawing :: "env \<Rightarrow> real \<Rightarrow> real \<Rightarrow> state \<Rightarrow> state" where
  "handleStartDrawing en x y s =
     (if selectedLine s \<noteq> None then s\<lparr>selectedLine := None\<rparr>
      else
        (let newLine = \<lparr>line_id = now en, points = [\<lparr>px = x, py = y\<rparr>],
                        color = editColor s, opacity = editOpacity s / 100, label = '''',
                        labelRotation = editLabelRotation s, labelPosition = None,
                        thickness = editThickness s\<rparr>
         in s\<lparr>currentLine := Some newLine, isDrawing := True\<rparr>))"

text \<open>\<^verbatim>\<open>handleDrawing\<close> (lines 103-110).\<close>

definition handleDrawing :: "real \<Rightarrow> real \<Rightarrow> state \<Rightarrow> state" where
  "handleDrawing x y s =
     (case currentLine s of
        None \<Rightarrow> s
      | Some cl \<Rightarrow>
          if \<not> isDrawing s then s
          else s\<lparr>currentLine := Some (cl\<lparr>points := points cl @ [\<lparr>px = x, py = y\<rparr>]\<rparr>)\<rparr>)"

text \<open>\<^verbatim>\<open>handleEndDrawing\<close> (lines 112-132).\<close>

definition handleEndDrawing :: "state \<Rightarrow> state" where
  "handleEndDrawing s =
     (case currentLine s of
        None \<Rightarrow> s
      | Some cl \<Rightarrow>
          if \<not> isDrawing s then s
          else
            (let lines' =
               (if length (points cl) \<ge> 2
                then (let midIndex = length (points cl) div 2;
                          midPoint = points cl ! midIndex;
                          newLine = cl\<lparr>labelPosition :=
                                        Some \<lparr>px = px midPoint, py = py midPoint - 15\<rparr>\<rparr>
                      in lines s @ [newLine])
                else lines s @ [cl])
             in s\<lparr>lines := lines', currentLine := None, isDrawing := False\<rparr>))"

text \<open>\<^verbatim>\<open>handleSelectLine\<close> (lines 134-141); \<^verbatim>\<open>line.labelRotation || 0\<close> is the
  rotation itself on the reals.\<close>

definition handleSelectLine :: "Line \<Rightarrow> state \<Rightarrow> state" where
  "handleSelectLine line s =
     s\<lparr>selectedLine := Some line,
       editColor := color line,
       editOpacity := opacity line * 100,
       editLabel := label line,
       editLabelRotation := labelRotation line,
       editThickness := (if thickness line = 0 then 3 else thickness line)\<rparr>"

text \<open>\<^verbatim>\<open>handleZoomIn\<close> and \<^verbatim>\<open>handleZoomOut\<close> (lines 174-180), the zoom buttons.\<close>

definition handleZoomIn :: "state \<Rightarrow> state" where
  "handleZoomIn s = s\<lparr>zoomLevel := min (zoomLevel s + 1 / 10) 3\<rparr>"

definition handleZoomOut :: "state \<Rightarrow> state" where
  "handleZoomOut s = s\<lparr>zoomLevel := max (zoomLevel s - 1 / 10) (1 / 2)\<rparr>"

text \<open>\<^verbatim>\<open>handleStartRotatingLabel\<close>, \<^verbatim>\<open>handleRotateLabel\<close>, \<^verbatim>\<open>handleEndRotatingLabel\<close>
  (lines 186-201).\<close>

definition handleStartRotatingLabel :: "state \<Rightarrow> state" where
  "handleStartRotatingLabel s = s\<lparr>isRotatingLabel := True\<rparr>"

definition handleRotateLabel :: "real \<Rightarrow> state \<Rightarrow> state" where
  "handleRotateLabel angle s =
     (let s1 = s\<lparr>editLabelRotation := angle\<rparr> in
      case selectedLine s of
        None \<Rightarrow> s1
      | Some sel \<Rightarrow>
          s1\<lparr>lines := map (\<lambda>line. if line_id line = line_id sel
                                  then line\<lparr>labelRotation := angle\<rparr> else line) (lines s)\<rparr>)"

definition handleEndRotatingLabel :: "state \<Rightarrow> state" where
  "handleEndRotatingLabel s = s\<lparr>isRotatingLabel := False\<rparr>"

text \<open>\<^verbatim>\<open>handleUpdateLabelPosition\<close> (lines 203-206).\<close>

definition handleUpdateLabelPosition :: "string \<Rightarrow> Point \<Rightarrow> state \<Rightarrow> state" where
  "handleUpdateLabelPosition lineId position s =
     s\<lparr>lines := map (\<lambda>line. if line_id line = lineId
                            then line\<lparr>labelPosition := Some position\<rparr> else line) (lines s)\<rparr>"

section \<open>The pointer handlers of DrawingCanvas\<close>

text \<open>
  A handler that can throw returns a \<open>state option\<close>, \<open>None\<close> for the TypeError of
  \<open>labelAnchor\<close>. The handlers call the callbacks above through the props
  \<^verbatim>\<open>onStartDrawing\<close>, \<^verbatim>\<open>onDrawing\<close>, \<^verbatim>\<open>onEndDrawing\<close>, \<^verbatim>\<open>onSelectLine\<close>,
  \<^verbatim>\<open>onStartRotatingLabel\<close>, \<^verbatim>\<open>onRotateLabel\<close>, \<^verbatim>\<open>onEndRotatingLabel\<close> and
  \<^verbatim>\<open>onUpdateLabelPosition\<close> (map-drawing-tool.tsx, lines 235-252).
\<close>

text \<open>
  The block of \<^verbatim>\<open>handleMouseDown\<close> under
  \<^verbatim>\<open>if (selectedLine && hoveredLabel === selectedLine.id)\<close> (lines 526-564), for the
  selected line \<open>sel\<close>; \<open>s1\<close> is the state with the writes made so far. The result is
  \<open>Some (Some s')\<close> when the block returns from the handler with state \<open>s'\<close> and
  \<open>Some None\<close> when control falls through to the label loop.
\<close>

definition selectedLineDown ::
  "env \<Rightarrow> state \<Rightarrow> Point \<Rightarrow> Line \<Rightarrow> state \<Rightarrow> state option option" where
  "selectedLineDown en s canvasCoords sel s1 =
     do {
       nearControl \<leftarrow> isPointNearRotationControl en s canvasCoords sel;
       if nearControl then do {
         center \<leftarrow> labelAnchor (imageX s) (imageY s) (effectiveScale s) sel;
         let dx = px canvasCoords - px center;
         let dy = py canvasCoords - py center;
         Some (Some ((handleStartRotatingLabel s1)
                       \<lparr>interactionMode := Rotate,
                        rotationCenter := Some center,
                        rotationStartAngle := atan2 dy dx * (180 / pi)\<rparr>))
       } else do {
         nearLabel \<leftarrow> isPointNearLabel en s canvasCoords sel;
         if nearLabel
         then Some (Some (s1\<lparr>isDraggingLabel := True, interactionMode := Drag\<rparr>))
         else Some None
       }
     }"

text \<open>The loop \<^verbatim>\<open>for (const line of lines)\<close> of \<^verbatim>\<open>handleMouseDown\<close> (lines 567-573):
  the first line with a label under the pointer, \<open>Some None\<close> when there is none.\<close>

fun firstLabelAt :: "env \<Rightarrow> state \<Rightarrow> Point \<Rightarrow> Line list \<Rightarrow> Line option option" where
  "firstLabelAt en s canvasCoords [] = Some None"
| "firstLabelAt en s canvasCoords (line # rest) =
     (if label line \<noteq> [] then do {
        near \<leftarrow> isPointNearLabel en s canvasCoords line;
        if near then Some (Some line) else firstLabelAt en s canvasCoords rest
      } else firstLabelAt en s canvasCoords rest)"

text \<open>\<^verbatim>\<open>handleMouseDown\<close> (lines 513-586).\<close>

definition handleMouseDown :: "env \<Rightarrow> MouseEvent \<Rightarrow> state \<Rightarrow> state option" where
  "handleMouseDown en e s =
     (let canvasCoords = getCanvasCoordinates en e;
          s1 = s\<lparr>cursorPosition := Some canvasCoords\<rparr>
      in
      if button e = 1 \<or> (button e = 0 \<and> shiftKey e) then
        Some (s1\<lparr>isPanning := True,
                 lastPanPoint := \<lparr>px = clientX e, py = clientY e\<rparr>,
                 interactionMode := Pan\<rparr>)
      else do {
        onSelected \<leftarrow>
          (case selectedLine s of
             None \<Rightarrow> Some None
           | Some sel \<Rightarrow>
               if hoveredLabel s = Some (line_id sel)
               then selectedLineDown en s canvasCoords sel s1
               else Some None);
        (case onSelected of
           Some s' \<Rightarrow> Some s'
         | None \<Rightarrow> do {
             labelled \<leftarrow> firstLabelAt en s canvasCoords (lines s);
             (case labelled of
                Some line \<Rightarrow>
                  Some ((handleSelectLine line s1)\<lparr>hoveredLabel := Some (line_id line)\<rparr>)
              | None \<Rightarrow>
                  (let imageCoords = getImageCoordinates s canvasCoords in
                   case findLineAtPoint s imageCoords of
                     Some clickedLine \<Rightarrow> Some (handleSelectLine clickedLine s1)
                   | None \<Rightarrow>
                       Some (handleStartDrawing en (px imageCoords) (py imageCoords)
                               (s1\<lparr>interactionMode := Draw\<rparr>))))
           })
      })"

text \<open>
  The rotation of \<^verbatim>\<open>handleMouseMove\<close> (lines 608-617): the angle from the rotation
  center to the pointer in degrees, snapped to a multiple of 5 with \<^verbatim>\<open>Math.round\<close>
  (\<open>round x = \<lfloor>x + 1/2\<rfloor>\<close>, as \<^verbatim>\<open>Math.round\<close> rounds halves up) and brought into the
  range from 0 to 360 by the two \<^verbatim>\<open>if\<close>s.
\<close>

definition snapRotation :: "Point \<Rightarrow> Point \<Rightarrow> real" where
  "snapRotation center canvasCoords =
     (let dx = px canvasCoords - px center;
          dy = py canvasCoords - py center;
          angle = atan2 dy dx * (180 / pi);
          newAngle = real_of_int (round (angle / 5)) * 5;
          newAngle1 = (if newAngle < 0 then newAngle + 360 else newAngle);
          newAngle2 = (if newAngle1 \<ge> 360 then newAngle1 - 360 else newAngle1)
      in newAngle2)"

text \<open>
  The hover loop of \<^verbatim>\<open>handleMouseMove\<close> (lines 631-648): the id of the first labelled
  line whose label or rotation control is under the pointer, with the cursor it sets.
\<close>

fun hoverScan :: "env \<Rightarrow> state \<Rightarrow> Point \<Rightarrow> Line list \<Rightarrow> (string \<times> string) option option" where
  "hoverScan en s canvasCoords [] = Some None"
| "hoverScan en s canvasCoords (line # rest) =
     (if label line \<noteq> [] then do {
        nearLabel \<leftarrow> isPointNearLabel en s canvasCoords line;
        nearEither \<leftarrow> (if nearLabel then Some True
                       else isPointNearRotationControl en s canvasCoords line);
        if nearEither then do {
          nearControl \<leftarrow> isPointNearRotationControl en s canvasCoords line;
          Some (Some (line_id line, if nearControl then ''grab'' else ''move''))
        } else hoverScan en s canvasCoords rest
      } else hoverScan en s canvasCoords rest)"

text \<open>\<^verbatim>\<open>handleMouseMove\<close> (lines 588-666).\<close>

definition handleMouseMove :: "env \<Rightarrow> MouseEvent \<Rightarrow> state \<Rightarrow> state option" where
  "handleMouseMove en e s =
     (let canvasCoords = getCanvasCoordinates en e;
          s1 = s\<lparr>cursorPosition := Some canvasCoords\<rparr>
      in
      if isPanning s then
        (let dx = clientX e - px (lastPanPoint s);
             dy = clientY e - py (lastPanPoint s)
         in Some (s1\<lparr>panOffset := \<lparr>px = px (panOffset s) + dx, py = py (panOffset s) + dy\<rparr>,
                     lastPanPoint := \<lparr>px = clientX e, py = clientY e\<rparr>\<rparr>))
      else if interactionMode s = Rotate \<and> rotationCenter s \<noteq> None then
        (case rotationCenter s of
           Some center \<Rightarrow> Some (handleRotateLabel (snapRotation center canvasCoords) s1)
         | None \<Rightarrow> Some s1)
      else if interactionMode s = Drag \<and> selectedLine s \<noteq> None \<and> isDraggingLabel s then
        (case selectedLine s of
           Some sel \<Rightarrow>
             (let imageCoords = getImageCoordinates s canvasCoords
              in Some (handleUpdateLabelPosition (line_id sel) imageCoords s1))
         | None \<Rightarrow> Some s1)
      else do {
        hovered \<leftarrow> hoverScan en s canvasCoords (lines s);
        let s2 = (case hovered of
                    Some (lineId, cur) \<Rightarrow> s1\<lparr>hoveredLabel := Some lineId, cursorStyle := cur\<rparr>
                  | None \<Rightarrow>
                      s1\<lparr>hoveredLabel := None,
                         cursorStyle := (if shiftKey e then ''grab'' else ''crosshair'')\<rparr>);
        if interactionMode s = Draw
        then (let imageCoords = getImageCoordinates s canvasCoords
              in Some (handleDrawing (px imageCoords) (py imageCoords) s2))
        else Some s2
      })"

text \<open>\<^verbatim>\<open>handleMouseUp\<close> (lines 668-688). Every test reads the state the handler started
  from.\<close>

definition handleMouseUp :: "state \<Rightarrow> state" where
  "handleMouseUp s =
     (let s1 = (if isPanning s then s\<lparr>isPanning := False\<rparr> else s);
          s2 = (if interactionMode s = Rotate
                then (handleEndRotatingLabel s1)\<lparr>rotationCenter := None\<rparr> else s1);
          s3 = (if isDraggingLabel s then s2\<lparr>isDraggingLabel := False\<rparr> else s2);
          s4 = (if interactionMode s = Draw then handleEndDrawing s3 else s3)
      in s4\<lparr>interactionMode := Draw, cursorStyle := ''crosshair''\<rparr>)"

text \<open>\<^verbatim>\<open>handleWheel\<close> (lines 829-862). \<^verbatim>\<open>newZoom\<close> is computed and printed; the handler
  has no write to \<^verbatim>\<open>zoomLevel\<close>, which is a prop of the component.\<close>

definition handleWheel :: "env \<Rightarrow> WheelEvent \<Rightarrow> state \<Rightarrow> state" where
  "handleWheel en e s =
     (let delta = (if deltaY e > 0 then - (1 / 10) else 1 / 10);
          newZoom = max (1 / 2) (min 3 (zoomLevel s + delta))
      in case canvas en of
           None \<Rightarrow> s
         | Some rect \<Rightarrow>
             (let mouseX = clientX e - rect_left rect;
                  mouseY = clientY e - rect_top rect;
                  s1 = (if delta > 0
                        then s\<lparr>panOffset :=
                                 \<lparr>px = px (panOffset s) - (mouseX - width (canvasSize s) / 2) * (5 / 100),
                                  py = py (panOffset s) - (mouseY - height (canvasSize s) / 2) * (5 / 100)\<rparr>\<rparr>
                        else s\<lparr>panOffset :=
                                 \<lparr>px = px (panOffset s) + (mouseX - width (canvasSize s) / 2) * (5 / 100),
                                  py = py (panOffset s) + (mouseY - height (canvasSize s) / 2) * (5 / 100)\<rparr>\<rparr>)
              in s1\<lparr>consoleLog := consoleLog s @ [newZoom]\<rparr>))"

text \<open>The mouse and wheel props of the \<^verbatim>\<open>canvas\<close> element (lines 952-959):
  \<^verbatim>\<open>onMouseUp\<close> and \<^verbatim>\<open>onMouseLeave\<close> are both \<^verbatim>\<open>handleMouseUp\<close>.\<close>

datatype CanvasEvent =
  MouseDown MouseEvent
| MouseMove MouseEvent
| MouseUp
| MouseLeave
| Wheel WheelEvent

fun canvasHandler :: "env \<Rightarrow> CanvasEvent \<Rightarrow> state \<Rightarrow> state option" where
  "canvasHandler en (MouseDown e) s = handleMouseDown en e s"
| "canvasHandler en (MouseMove e) s = handleMouseMove en e s"
| "canvasHandler en MouseUp s = Some (handleMouseUp s)"
| "canvasHandler en MouseLeave s = Some (handleMouseUp s)"
| "canvasHandler en (Wheel e) s = Some (handleWheel en e s)"

section \<open>A concrete scene\<close>

text \<open>
  A browser with an 800 by 600 container, a 400 by 400 background image and a text
  measurer that gives every character 8 pixels. The image is fitted with base scale
  \<open>3/2\<close>, shown 600 by 600 and centred, so it covers the screen columns 100 to 700.
\<close>

definition browser :: env where
  "browser = \<lparr>canvas = Some \<lparr>rect_left = 0, rect_top = 0\<rparr>,
              measureText = Some (\<lambda>t. 8 * real (length t)),
              now = ''1700000000000'',
              img = \<lparr>width = 400, height = 400\<rparr>,
              container = \<lparr>width = 800, height = 600\<rparr>\<rparr>"

definition loadedState :: state where
  "loadedState = imageOnload browser initialState"

definition leftClick :: "real \<Rightarrow> real \<Rightarrow> MouseEvent" where
  "leftClick x y = \<lparr>clientX = x, clientY = y, button = 0, shiftKey = False\<rparr>"

definition middleClick :: "real \<Rightarrow> real \<Rightarrow> MouseEvent" where
  "middleClick x y = \<lparr>clientX = x, clientY = y, button = 1, shiftKey = False\<rparr>"

definition wheelUp :: WheelEvent where
  "wheelUp = \<lparr>clientX = 400, clientY = 300, button = 0, shiftKey = False, deltaY = - 100\<rparr>"

text \<open>The in-progress line after a press at screen \<open>(250, 150)\<close>, image \<open>(100, 100)\<close>,
  and after a move to screen \<open>(550, 150)\<close>, image \<open>(300, 100)\<close>.\<close>

definition pressedLine :: Line where
  "pressedLine = \<lparr>line_id = ''1700000000000'', points = [\<lparr>px = 100, py = 100\<rparr>],
                   color = ''#FF0000'', opacity = 1, label = '''', labelRotation = 0,
                   labelPosition = None, thickness = 3\<rparr>"

definition pressedState :: state where
  "pressedState = loadedState\<lparr>currentLine := Some pressedLine, isDrawing := True,
                               cursorPosition := Some \<lparr>px = 250, py = 150\<rparr>\<rparr>"

definition strokeLine :: Line where
  "strokeLine = pressedLine\<lparr>points := [\<lparr>px = 100, py = 100\<rparr>, \<lparr>px = 300, py = 100\<rparr>]\<rparr>"

definition strokeState :: state where
  "strokeState = pressedState\<lparr>currentLine := Some strokeLine,
                                cursorPosition := Some \<lparr>px = 550, py = 150\<rparr>,
                                cursorStyle := ''crosshair''\<rparr>"

text \<open>A scene with one committed, labelled line; its label is anchored at image
  \<open>(200, 80)\<close>, screen \<open>(400, 120)\<close>, and its rotation control is centred at screen
  \<open>(428, 120)\<close>.\<close>

definition routeLine :: Line where
  "routeLine = \<lparr>line_id = ''1700000000000'',
                 points = [\<lparr>px = 100, py = 100\<rparr>, \<lparr>px = 300, py = 100\<rparr>],
                 color = ''#FF0000'', opacity = 1, label = ''Ruta'', labelRotation = 0,
                 labelPosition = Some \<lparr>px = 200, py = 80\<rparr>, thickness = 3\<rparr>"

definition sceneState :: state where
  "sceneState = loadedState\<lparr>lines := [routeLine]\<rparr>"

text \<open>The scene after a press on the label (selected and hovered), after a further
  press on the rotation control, after a press of the middle button during that
  rotation, and after a press on the label of the selected line.\<close>

definition selectedState :: state where
  "selectedState = sceneState\<lparr>selectedLine := Some routeLine, editLabel := ''Ruta'',
                               editThickness := 3,
                               hoveredLabel := Some ''1700000000000'',
                               cursorPosition := Some \<lparr>px = 400, py = 120\<rparr>\<rparr>"

definition rotateState :: state where
  "rotateState = selectedState\<lparr>isRotatingLabel := True, interactionMode := Rotate,
                                 rotationCenter := Some \<lparr>px = 400, py = 120\<rparr>,
                                 cursorPosition := Some \<lparr>px = 428, py = 120\<rparr>\<rparr>"

definition chordState :: state where
  "chordState = rotateState\<lparr>isPanning := True, lastPanPoint := \<lparr>px = 428, py = 120\<rparr>,
                             interactionMode := Pan\<rparr>"

definition dragState :: state where
  "dragState = selectedState\<lparr>isDraggingLabel := True, interactionMode := Drag\<rparr>"

text \<open>The scene after a press at screen \<open>(400, 450)\<close>, away from the line and its
  label, made while the line was selected.\<close>

definition deselectedState :: state where
  "deselectedState = selectedState\<lparr>selectedLine := None,
                                     cursorPosition := Some \<lparr>px = 400, py = 450\<rparr>\<rparr>"

section \<open>Evaluation lemmas\<close>

lemmas scene_defs =
  browser_def loadedState_def leftClick_def initialState_def imageOnload_def
  routeLine_def sceneState_def selectedState_def

lemmas viewport_defs =
  imageX_def imageY_def effectiveScale_def withinImageBounds_def getImageCoordinates_def
  getCanvasCoordinates_def

lemmas hit_defs =
  labelAnchor_def isPointNearLabel_def isPointNearRotationControl_def hitThreshold_def
  findLineAtPoint_def distanceToLineSegment_def divide_checked_def selectedLineDown_def

lemmas callback_defs =
  handleStartDrawing_def handleDrawing_def handleEndDrawing_def handleSelectLine_def
  handleStartRotatingLabel_def handleRotateLabel_def handleEndRotatingLabel_def
  handleUpdateLabelPosition_def

lemma sqrt_less_iff_sq:
  assumes "0 \<le> t"
  shows "sqrt x < t \<longleftrightarrow> x < t * t"
proof -
  have "sqrt (t * t) = t" using assms by simp
  then have "sqrt x < t \<longleftrightarrow> sqrt x < sqrt (t * t)" by simp
  also have "\<dots> \<longleftrightarrow> x < t * t" by (rule real_sqrt_less_iff)
  finally show ?thesis .
qed

lemma sqrt_le_iff_sq:
  assumes "0 \<le> t"
  shows "sqrt x \<le> t \<longleftrightarrow> x \<le> t * t"
proof -
  have "sqrt (t * t) = t" using assms by simp
  then have "sqrt x \<le> t \<longleftrightarrow> sqrt x \<le> sqrt (t * t)" by simp
  also have "\<dots> \<longleftrightarrow> x \<le> t * t" by (rule real_sqrt_le_iff)
  finally show ?thesis .
qed

lemma press_on_empty_scene:
  "handleMouseDown browser (leftClick 250 150) loadedState = Some pressedState"
  by (simp add: handleMouseDown_def scene_defs pressedLine_def pressedState_def viewport_defs hit_defs callback_defs Let_def)

lemma move_while_drawing:
  "handleMouseMove browser (leftClick 550 150) pressedState = Some strokeState"
  by (simp add: handleMouseMove_def scene_defs pressedLine_def pressedState_def strokeLine_def strokeState_def viewport_defs hit_defs callback_defs Let_def)

lemma press_on_label:
  "handleMouseDown browser (leftClick 400 120) sceneState = Some selectedState"
  by (simp add: handleMouseDown_def scene_defs viewport_defs hit_defs callback_defs Let_def)

lemma press_on_rotation_control:
  "handleMouseDown browser (leftClick 428 120) selectedState = Some rotateState"
  by (simp add: handleMouseDown_def scene_defs rotateState_def viewport_defs hit_defs callback_defs Let_def
      atan2_def)

lemma middle_press_while_rotating:
  "handleMouseDown browser (middleClick 428 120) rotateState = Some chordState"
  by (simp add: handleMouseDown_def scene_defs rotateState_def chordState_def middleClick_def viewport_defs Let_def)

lemma press_on_selected_label:
  "handleMouseDown browser (leftClick 400 120) selectedState = Some dragState"
  by (simp add: handleMouseDown_def scene_defs dragState_def viewport_defs hit_defs callback_defs Let_def
      sqrt_le_iff_sq)

section \<open>The point-to-segment distance\<close>


text \<open>
  Claim C9. The point-to-segment distance is total: for every point and every pair of
  segment endpoints it returns a number, no division by zero is evaluated, and for a
  degenerate segment (both endpoints equal) the result is the Euclidean distance from
  the point to that endpoint.
\<close>

theorem distanceToLineSegment_total:
  "(\<exists>d. distanceToLineSegment p a b = Some d \<and> 0 \<le> d) \<and>
   distanceToLineSegment p a a =
     Some (sqrt ((px p - px a) * (px p - px a) + (py p - py a) * (py p - py a)))"
  by (simp add: distanceToLineSegment_def divide_checked_def Let_def)

section \<open>Ending a gesture\<close>

lemma handleMouseUp_mode: "interactionMode (handleMouseUp s) = Draw"
  by (simp add: handleMouseUp_def handleEndDrawing_def handleEndRotatingLabel_def Let_def
      split: option.splits)

lemma handleMouseUp_isPanning: "\<not> isPanning (handleMouseUp s)"
  by (simp add: handleMouseUp_def handleEndDrawing_def handleEndRotatingLabel_def Let_def
      split: option.splits)

lemma handleMouseUp_isDraggingLabel: "\<not> isDraggingLabel (handleMouseUp s)"
  by (simp add: handleMouseUp_def handleEndDrawing_def handleEndRotatingLabel_def Let_def
      split: option.splits)

lemma handleMouseUp_rotationCenter:
  "rotationCenter (handleMouseUp s) =
     (if interactionMode s = Rotate then None else rotationCenter s)"
  by (simp add: handleMouseUp_def handleEndDrawing_def handleEndRotatingLabel_def Let_def
      split: option.splits)

lemma handleMouseUp_lines_draw:
  assumes "interactionMode s = Draw" and "isDrawing s" and "currentLine s = Some cl"
  shows "lines (handleMouseUp s) =
           lines s @ [if 2 \<le> length (points cl)
                      then cl\<lparr>labelPosition :=
                                Some \<lparr>px = px (points cl ! (length (points cl) div 2)),
                                      py = py (points cl ! (length (points cl) div 2)) - 15\<rparr>\<rparr>
                      else cl]"
    and "currentLine (handleMouseUp s) = None"
    and "isDrawing (handleMouseUp s) = False"
  using assms by (simp_all add: handleMouseUp_def handleEndDrawing_def Let_def)

text \<open>
  Claim C1, as amended. When a draw gesture ends (pointer-up or pointer-leave in draw
  mode, with a line in progress), exactly one entry is appended to the committed
  lines in every case: for an in-progress line of two or more points the entry is that
  line with \<open>labelPosition\<close> set to the point at index \<open>\<lfloor>length / 2\<rfloor>\<close> moved by -15 in
  Y; for an in-progress line of fewer than two points the entry is that line as it is.
  Pointer-leave does what pointer-up does.
\<close>

theorem draw_gesture_end_appends:
  assumes "interactionMode s = Draw" and "isDrawing s" and "currentLine s = Some cl"
  shows "canvasHandler en MouseLeave s = canvasHandler en MouseUp s \<and>
         (\<exists>s'. canvasHandler en MouseUp s = Some s' \<and>
            lines s' =
              lines s @ [if 2 \<le> length (points cl)
                         then cl\<lparr>labelPosition :=
                                   Some \<lparr>px = px (points cl ! (length (points cl) div 2)),
                                         py = py (points cl ! (length (points cl) div 2)) - 15\<rparr>\<rparr>
                         else cl] \<and>
            currentLine s' = None \<and> \<not> isDrawing s')"
  using handleMouseUp_lines_draw [OF assms] by simp

theorem draw_gesture_end_appends_witness:
  "handleMouseMove browser (leftClick 550 150) pressedState = Some strokeState \<and>
   interactionMode strokeState = Draw \<and> isDrawing strokeState \<and>
   currentLine strokeState = Some strokeLine \<and>
   canvasHandler browser MouseLeave strokeState = canvasHandler browser MouseUp strokeState \<and>
   (\<exists>s'. canvasHandler browser MouseUp strokeState = Some s' \<and>
      lines s' = [strokeLine\<lparr>labelPosition := Some \<lparr>px = 300, py = 85\<rparr>\<rparr>] \<and>
      currentLine s' = None \<and> \<not> isDrawing s')"
proof -
  have h: "interactionMode strokeState = Draw" "isDrawing strokeState"
    "currentLine strokeState = Some strokeLine"
    by (simp_all add: scene_defs pressedLine_def pressedState_def strokeLine_def strokeState_def)
  have l: "lines strokeState = []" "points strokeLine = [\<lparr>px = 100, py = 100\<rparr>, \<lparr>px = 300, py = 100\<rparr>]"
    by (simp_all add: scene_defs pressedLine_def pressedState_def strokeLine_def strokeState_def)
  show ?thesis
    using draw_gesture_end_appends [OF h, of browser] h move_while_drawing
    by (simp add: l)
qed

text \<open>
  The claim as stated fails: a press on the empty scene followed by a release, with no
  move in between, ends a draw gesture whose line has one point, and that line is
  appended to the committed lines.
\<close>

theorem single_click_commits_line_counterexample:
  "handleMouseDown browser (leftClick 250 150) loadedState = Some pressedState \<and>
   interactionMode pressedState = Draw \<and>
   currentLine pressedState = Some pressedLine \<and>
   length (points pressedLine) = 1 \<and>
   lines pressedState = [] \<and>
   canvasHandler browser MouseUp pressedState = Some (handleMouseUp pressedState) \<and>
   lines (handleMouseUp pressedState) = [pressedLine]"
  using press_on_empty_scene
  by (simp add: handleMouseUp_def handleEndDrawing_def Let_def scene_defs pressedLine_def pressedState_def)

text \<open>
  Claim C8, as amended. After a pointer-up or a pointer-leave, from any of the four
  interaction modes, the mode is draw and the panning and label-dragging flags are
  cleared; the rotation center is cleared when the mode was rotate, and stays absent
  when it was absent. Pointer-leave runs the same handler as pointer-up.
\<close>

theorem pointer_up_resets_mode:
  "canvasHandler en MouseUp s = Some (handleMouseUp s) \<and>
   canvasHandler en MouseLeave s = Some (handleMouseUp s) \<and>
   interactionMode (handleMouseUp s) = Draw \<and>
   \<not> isPanning (handleMouseUp s) \<and>
   \<not> isDraggingLabel (handleMouseUp s) \<and>
   (interactionMode s = Rotate \<or> rotationCenter s = None
      \<longrightarrow> rotationCenter (handleMouseUp s) = None)"
  by (simp add: handleMouseUp_mode handleMouseUp_isPanning handleMouseUp_isDraggingLabel
      handleMouseUp_rotationCenter)

theorem pointer_up_resets_mode_witness:
  "interactionMode rotateState = Rotate \<and>
   rotationCenter rotateState = Some \<lparr>px = 400, py = 120\<rparr> \<and>
   canvasHandler browser MouseLeave rotateState = Some (handleMouseUp rotateState) \<and>
   interactionMode (handleMouseUp rotateState) = Draw \<and>
   \<not> isPanning (handleMouseUp rotateState) \<and>
   \<not> isDraggingLabel (handleMouseUp rotateState) \<and>
   rotationCenter (handleMouseUp rotateState) = None"
proof -
  have h: "interactionMode rotateState = Rotate"
    "rotationCenter rotateState = Some \<lparr>px = 400, py = 120\<rparr>"
    by (simp_all add: scene_defs rotateState_def)
  show ?thesis
    using pointer_up_resets_mode [of browser rotateState] h by simp
qed

text \<open>
  The claim as stated fails for the rotation center. A press on the label selects the
  line; a press on the rotation control of the selected label starts a rotation; a press of the middle button before the
  release switches the mode to pan and leaves the rotation center set; the pointer-up
  that follows starts from pan mode, so it does not clear the rotation center.
\<close>

theorem pointer_up_keeps_rotation_center_counterexample:
  "handleMouseDown browser (leftClick 400 120) sceneState = Some selectedState \<and>
   handleMouseDown browser (leftClick 428 120) selectedState = Some rotateState \<and>
   handleMouseDown browser (middleClick 428 120) rotateState = Some chordState \<and>
   interactionMode chordState = Pan \<and>
   canvasHandler browser MouseUp chordState = Some (handleMouseUp chordState) \<and>
   interactionMode (handleMouseUp chordState) = Draw \<and>
   rotationCenter (handleMouseUp chordState) = Some \<lparr>px = 400, py = 120\<rparr>"
  using press_on_label press_on_rotation_control middle_press_while_rotating
  by (simp add: handleMouseUp_rotationCenter handleMouseUp_mode scene_defs rotateState_def chordState_def)

section \<open>The viewport transform\<close>

lemma drawCanvas_origin_imageXY:
  assumes "width (imageSize s) = width (img en) * scale s"
      and "height (imageSize s) = height (img en) * scale s"
  shows "drawCanvas_origin en s = \<lparr>px = imageX s, py = imageY s\<rparr>"
  using assms by (simp add: drawCanvas_origin_def imageX_def imageY_def Let_def mult.assoc)

lemma getImageCoordinates_outside:
  "\<not> withinImageBounds s c \<Longrightarrow> getImageCoordinates s c = \<lparr>px = 0, py = 0\<rparr>"
  by (simp add: getImageCoordinates_def)

lemma getImageCoordinates_inside:
  "withinImageBounds s c \<Longrightarrow>
   getImageCoordinates s c =
     \<lparr>px = (px c - imageX s) / effectiveScale s, py = (py c - imageY s) / effectiveScale s\<rparr>"
  by (simp add: getImageCoordinates_def)

text \<open>
  Claim C3. For a viewport with nonzero effective scale and an image-space point \<open>p\<close>
  whose screen position \<open>imageOrigin + p * effectiveScale\<close> lies inside the rendered
  image's rectangle, the screen-to-image conversion of that screen position is \<open>p\<close>
  (exactly, on the reals). The image origin of the conversion is the one the renderer
  uses whenever the displayed image size is the natural size times the base scale, as
  the sizing on image load sets it.
\<close>

theorem screen_to_image_inverts_image_to_screen:
  assumes "effectiveScale s \<noteq> 0"
      and "withinImageBounds s (drawLine_vertex (imageX s) (imageY s) (effectiveScale s) p)"
  shows "getImageCoordinates s (drawLine_vertex (imageX s) (imageY s) (effectiveScale s) p) = p \<and>
         (width (imageSize s) = width (img en) * scale s \<and>
          height (imageSize s) = height (img en) * scale s \<longrightarrow>
            drawCanvas_origin en s = \<lparr>px = imageX s, py = imageY s\<rparr> \<and>
            effectiveScale s = scale s * zoomLevel s)"
proof -
  have "getImageCoordinates s (drawLine_vertex (imageX s) (imageY s) (effectiveScale s) p) =
          \<lparr>px = px p, py = py p\<rparr>"
    using assms by (simp add: getImageCoordinates_inside) (simp add: drawLine_vertex_def)
  then show ?thesis
    by (simp add: drawCanvas_origin_imageXY effectiveScale_def)
qed

theorem screen_to_image_inverts_image_to_screen_witness:
  "effectiveScale loadedState \<noteq> 0 \<and>
   drawLine_vertex (imageX loadedState) (imageY loadedState) (effectiveScale loadedState)
     \<lparr>px = 100, py = 100\<rparr> = \<lparr>px = 250, py = 150\<rparr> \<and>
   withinImageBounds loadedState \<lparr>px = 250, py = 150\<rparr> \<and>
   getImageCoordinates loadedState \<lparr>px = 250, py = 150\<rparr> = \<lparr>px = 100, py = 100\<rparr> \<and>
   drawCanvas_origin browser loadedState = \<lparr>px = 100, py = 0\<rparr>"
proof -
  have v: "drawLine_vertex (imageX loadedState) (imageY loadedState) (effectiveScale loadedState)
             \<lparr>px = 100, py = 100\<rparr> = \<lparr>px = 250, py = 150\<rparr>"
    by (simp add: drawLine_vertex_def scene_defs viewport_defs Let_def)
  have h: "effectiveScale loadedState \<noteq> 0" "withinImageBounds loadedState \<lparr>px = 250, py = 150\<rparr>"
    by (simp_all add: scene_defs viewport_defs Let_def)
  have i: "width (imageSize loadedState) = width (img browser) * scale loadedState"
    "height (imageSize loadedState) = height (img browser) * scale loadedState"
    "imageX loadedState = 100" "imageY loadedState = 0"
    by (simp_all add: scene_defs viewport_defs Let_def)
  show ?thesis
    using screen_to_image_inverts_image_to_screen
            [of loadedState "\<lparr>px = 100, py = 100\<rparr>" browser] h v i
    by simp
qed

section \<open>Rotating a label\<close>

lemma atan2_bounds: "- pi < atan2 y x \<and> atan2 y x \<le> pi"
proof -
  have a: "- (pi / 2) < arctan (y / x)" "arctan (y / x) < pi / 2"
    by (rule arctan_lbound, rule arctan_ubound)
  show ?thesis
  proof (cases "x > 0")
    case True
    then show ?thesis using a pi_gt_zero by (simp add: atan2_def)
  next
    case xn: False
    show ?thesis
    proof (cases "x < 0")
      case True
      show ?thesis
      proof (cases "y \<ge> 0")
        case yp: True
        have "y / x \<le> 0" using True yp by (simp add: divide_nonneg_neg)
        then have "arctan (y / x) \<le> 0" by (simp add: arctan_le_zero_iff)
        then show ?thesis using a True yp pi_gt_zero by (simp add: atan2_def)
      next
        case yn: False
        have "0 < y / x" using True yn by (simp add: divide_neg_neg)
        then have "0 < arctan (y / x)" by (simp add: zero_less_arctan_iff)
        then show ?thesis using a True yn pi_gt_zero by (simp add: atan2_def)
      qed
    next
      case False
      have h: "- (pi / 2) \<le> pi" "- pi < pi / 2" "- pi < - (pi / 2)" "pi / 2 \<le> pi"
        using pi_gt_zero by linarith+
      from False xn show ?thesis using pi_gt_zero by (auto simp add: atan2_def intro: h)
    qed
  qed
qed

lemma snapRotation_range:
  "\<exists>k::int. snapRotation c p = 5 * real_of_int k \<and> 0 \<le> k \<and> k < 72"
proof -
  define a where "a = atan2 (py p - py c) (px p - px c) * (180 / pi)"
  define r where "r = round (a / 5)"
  have b: "- pi < atan2 (py p - py c) (px p - px c)" "atan2 (py p - py c) (px p - px c) \<le> pi"
    using atan2_bounds by auto
  have "a \<le> 180"
  proof -
    have "atan2 (py p - py c) (px p - px c) * (180 / pi) \<le> pi * (180 / pi)"
      using b(2) pi_gt_zero by (intro mult_right_mono) auto
    then show ?thesis by (simp add: a_def)
  qed
  moreover have "- 180 < a"
  proof -
    have "(- pi) * (180 / pi) < atan2 (py p - py c) (px p - px c) * (180 / pi)"
      using b(1) pi_gt_zero by (intro mult_strict_right_mono) auto
    then show ?thesis by (simp add: a_def)
  qed
  ultimately have r: "- 36 \<le> r" "r \<le> 36"
    unfolding r_def round_def by (linarith+)
  have s: "snapRotation c p =
             (if real_of_int r * 5 < 0 then real_of_int r * 5 + 360 else real_of_int r * 5)"
    using r by (simp add: snapRotation_def Let_def a_def r_def)
  show ?thesis
  proof (cases "r < 0")
    case True
    then have "snapRotation c p = 5 * real_of_int (r + 72)" using s by simp
    then show ?thesis using True r by (intro exI[of _ "r + 72"]) simp
  next
    case False
    then have "snapRotation c p = 5 * real_of_int r" using s by simp
    then show ?thesis using False r by (intro exI[of _ r]) simp
  qed
qed

lemma handleMouseMove_rotate:
  assumes "interactionMode s = Rotate" and "rotationCenter s = Some center"
      and "\<not> isPanning s"
  shows "handleMouseMove en e s =
           Some (handleRotateLabel (snapRotation center (getCanvasCoordinates en e))
                   (s\<lparr>cursorPosition := Some (getCanvasCoordinates en e)\<rparr>))"
  using assms by (simp add: handleMouseMove_def Let_def)

text \<open>
  Claim C5. A pointer-move processed in rotate mode (a rotation center is set and no
  panning is in progress) pushes one angle into the live edit field and into the
  \<open>labelRotation\<close> of the selected line; that angle is a multiple of 5 and lies in
  \<open>[0, 360)\<close>, wherever the pointer is relative to the rotation center.
\<close>

theorem rotate_move_snaps_angle:
  assumes "interactionMode s = Rotate" and "rotationCenter s = Some center"
      and "\<not> isPanning s"
  shows "\<exists>s' k. handleMouseMove en e s = Some s' \<and>
           editLabelRotation s' = 5 * real_of_int k \<and> 0 \<le> k \<and> k < 72 \<and>
           0 \<le> editLabelRotation s' \<and> editLabelRotation s' < 360 \<and>
           lines s' =
             (case selectedLine s of
                None \<Rightarrow> lines s
              | Some sel \<Rightarrow>
                  map (\<lambda>line. if line_id line = line_id sel
                               then line\<lparr>labelRotation := editLabelRotation s'\<rparr> else line)
                      (lines s))"
proof -
  obtain k :: int where k:
    "snapRotation center (getCanvasCoordinates en e) = 5 * real_of_int k" "0 \<le> k" "k < 72"
    using snapRotation_range by blast
  define s' where
    "s' = handleRotateLabel (snapRotation center (getCanvasCoordinates en e))
            (s\<lparr>cursorPosition := Some (getCanvasCoordinates en e)\<rparr>)"
  have m: "handleMouseMove en e s = Some s'"
    unfolding s'_def by (rule handleMouseMove_rotate [OF assms])
  have f: "editLabelRotation s' = 5 * real_of_int k"
    using k(1) by (simp add: s'_def handleRotateLabel_def Let_def split: option.splits)
  have l: "lines s' =
             (case selectedLine s of
                None \<Rightarrow> lines s
              | Some sel \<Rightarrow>
                  map (\<lambda>line. if line_id line = line_id sel
                               then line\<lparr>labelRotation := editLabelRotation s'\<rparr> else line)
                      (lines s))"
    by (simp add: s'_def handleRotateLabel_def Let_def split: option.splits)
  have b: "0 \<le> editLabelRotation s'" "editLabelRotation s' < 360"
    using f k(2,3) by simp_all
  show ?thesis using m f l b k(2,3) by blast
qed

theorem rotate_move_snaps_angle_witness:
  "interactionMode rotateState = Rotate \<and>
   rotationCenter rotateState = Some \<lparr>px = 400, py = 120\<rparr> \<and>
   \<not> isPanning rotateState \<and>
   selectedLine rotateState = Some routeLine \<and>
   lines rotateState = [routeLine] \<and>
   (\<exists>s' k. handleMouseMove browser (leftClick 400 220) rotateState = Some s' \<and>
      editLabelRotation s' = 5 * real_of_int k \<and> 0 \<le> k \<and> k < 72 \<and>
      0 \<le> editLabelRotation s' \<and> editLabelRotation s' < 360 \<and>
      lines s' = [routeLine\<lparr>labelRotation := editLabelRotation s'\<rparr>])"
proof -
  have h: "interactionMode rotateState = Rotate"
    "rotationCenter rotateState = Some \<lparr>px = 400, py = 120\<rparr>" "\<not> isPanning rotateState"
    by (simp_all add: scene_defs rotateState_def)
  have g: "selectedLine rotateState = Some routeLine" "lines rotateState = [routeLine]"
    by (simp_all add: scene_defs rotateState_def)
  show ?thesis
    using rotate_move_snaps_angle [OF h, of browser "leftClick 400 220"] h g
    by simp
qed

section \<open>The mouse wheel\<close>

text \<open>
  Claim C6. The claim is that one wheel event changes \<open>zoomLevel\<close> by a tenth, clamped
  to \<open>[0.5, 3]\<close>. \<^verbatim>\<open>handleWheel\<close> computes that value and prints it, and leaves
  \<open>zoomLevel\<close> as it was: from zoom level 1 a scroll up prints 1.1 and the level stays
  1, and from 2.95 it prints 3 and the level stays 2.95. The zoom button
  (\<^verbatim>\<open>handleZoomIn\<close>) does set the level to 1.1.
\<close>

theorem wheel_leaves_zoomLevel:
  "zoomLevel (handleWheel en e s) = zoomLevel s \<and>
   canvasHandler browser (Wheel wheelUp) loadedState =
     Some (handleWheel browser wheelUp loadedState) \<and>
   zoomLevel loadedState = 1 \<and>
   consoleLog (handleWheel browser wheelUp loadedState) = [11 / 10] \<and>
   zoomLevel (handleWheel browser wheelUp loadedState) = 1 \<and>
   consoleLog (handleWheel browser wheelUp (loadedState\<lparr>zoomLevel := 295 / 100\<rparr>)) = [3] \<and>
   zoomLevel (handleWheel browser wheelUp (loadedState\<lparr>zoomLevel := 295 / 100\<rparr>)) = 295 / 100 \<and>
   zoomLevel (handleZoomIn loadedState) = 11 / 10"
proof -
  have "zoomLevel (handleWheel en e s) = zoomLevel s"
    by (simp add: handleWheel_def Let_def split: option.splits)
  moreover have "consoleLog (handleWheel browser wheelUp loadedState) = [11 / 10]"
    by (simp add: handleWheel_def Let_def scene_defs wheelUp_def)
  moreover have
    "consoleLog (handleWheel browser wheelUp (loadedState\<lparr>zoomLevel := 295 / 100\<rparr>)) = [3]"
    by (simp add: handleWheel_def Let_def scene_defs wheelUp_def)
  moreover have "zoomLevel loadedState = 1" "zoomLevel (handleZoomIn loadedState) = 11 / 10"
    by (simp_all add: handleZoomIn_def scene_defs wheelUp_def)
  moreover have "zoomLevel (handleWheel browser wheelUp loadedState) = 1"
    by (simp add: handleWheel_def Let_def scene_defs wheelUp_def)
  moreover have
    "zoomLevel (handleWheel browser wheelUp (loadedState\<lparr>zoomLevel := 295 / 100\<rparr>)) = 295 / 100"
    by (simp add: handleWheel_def Let_def scene_defs wheelUp_def)
  ultimately show ?thesis by simp
qed

section \<open>Dragging a label\<close>

lemma handleMouseMove_drag:
  assumes "interactionMode s = Drag" and "selectedLine s = Some sel"
      and "isDraggingLabel s" and "\<not> isPanning s"
  shows "handleMouseMove en e s =
           Some (handleUpdateLabelPosition (line_id sel)
                   (getImageCoordinates s (getCanvasCoordinates en e))
                   (s\<lparr>cursorPosition := Some (getCanvasCoordinates en e)\<rparr>))"
  using assms by (simp add: handleMouseMove_def Let_def)

lemma handleMouseMove_drag_lines:
  assumes "interactionMode s = Drag" and "selectedLine s = Some sel"
      and "isDraggingLabel s" and "\<not> isPanning s"
  shows "\<exists>s'. handleMouseMove en e s = Some s' \<and>
           lines s' =
             map (\<lambda>line. if line_id line = line_id sel
                          then line\<lparr>labelPosition :=
                                      Some (getImageCoordinates s (getCanvasCoordinates en e))\<rparr>
                          else line)
                 (lines s)"
  using handleMouseMove_drag [OF assms, of en e]
  by (simp add: handleUpdateLabelPosition_def)

text \<open>
  Claim C2, as amended. Every pointer-move processed in drag mode (a line is selected,
  the label-dragging flag is set, no panning is in progress) overwrites the
  \<open>labelPosition\<close> of the selected line with the result of the screen-to-image
  conversion: the pointer's image-space coordinates when the pointer is inside the
  rendered image's rectangle, and the point \<open>(0, 0)\<close> when it is outside.
\<close>

theorem drag_move_overwrites_label_position:
  assumes "interactionMode s = Drag" and "selectedLine s = Some sel"
      and "isDraggingLabel s" and "\<not> isPanning s" and "effectiveScale s \<noteq> 0"
  shows "\<exists>s'. handleMouseMove en e s = Some s' \<and>
           lines s' =
             map (\<lambda>line. if line_id line = line_id sel
                          then line\<lparr>labelPosition :=
                                 Some (if withinImageBounds s (getCanvasCoordinates en e)
                                       then \<lparr>px = (px (getCanvasCoordinates en e) - imageX s)
                                                    / effectiveScale s,
                                             py = (py (getCanvasCoordinates en e) - imageY s)
                                                    / effectiveScale s\<rparr>
                                       else \<lparr>px = 0, py = 0\<rparr>)\<rparr>
                          else line)
                 (lines s)"
proof -
  have eq: "getImageCoordinates s (getCanvasCoordinates en e) =
              (if withinImageBounds s (getCanvasCoordinates en e)
               then \<lparr>px = (px (getCanvasCoordinates en e) - imageX s) / effectiveScale s,
                     py = (py (getCanvasCoordinates en e) - imageY s) / effectiveScale s\<rparr>
               else \<lparr>px = 0, py = 0\<rparr>)"
    by (simp add: getImageCoordinates_def)
  show ?thesis
    using handleMouseMove_drag_lines [OF assms(1-4), of en e] unfolding eq .
qed

theorem drag_move_overwrites_label_position_witness:
  "interactionMode dragState = Drag \<and> selectedLine dragState = Some routeLine \<and>
   isDraggingLabel dragState \<and> \<not> isPanning dragState \<and> effectiveScale dragState \<noteq> 0 \<and>
   withinImageBounds dragState (getCanvasCoordinates browser (leftClick 550 180)) \<and>
   (\<exists>s'. handleMouseMove browser (leftClick 550 180) dragState = Some s' \<and>
      lines s' = [routeLine\<lparr>labelPosition := Some \<lparr>px = 300, py = 120\<rparr>\<rparr>])"
proof -
  have h: "interactionMode dragState = Drag" "selectedLine dragState = Some routeLine"
    "isDraggingLabel dragState" "\<not> isPanning dragState" "effectiveScale dragState \<noteq> 0"
    by (simp_all add: scene_defs dragState_def viewport_defs Let_def)
  have g: "withinImageBounds dragState \<lparr>px = 550, py = 180\<rparr>"
    "getCanvasCoordinates browser (leftClick 550 180) = \<lparr>px = 550, py = 180\<rparr>"
    "imageX dragState = 100" "imageY dragState = 0" "effectiveScale dragState = 3 / 2"
    "lines dragState = [routeLine]"
    by (simp_all add: scene_defs dragState_def viewport_defs Let_def)
  show ?thesis
    using drag_move_overwrites_label_position [OF h, of browser "leftClick 550 180"]
    by (simp add: h g)
qed

text \<open>
  The claim as stated fails: after a press on the label that selects the line and a
  second press on it that starts the drag, a move
  to screen \<open>(50, 300)\<close>, left of the rendered image, is not dropped; it moves the label
  from \<open>(200, 80)\<close> to \<open>(0, 0)\<close>.
\<close>

theorem drag_outside_image_moves_label_counterexample:
  "handleMouseDown browser (leftClick 400 120) sceneState = Some selectedState \<and>
   handleMouseDown browser (leftClick 400 120) selectedState = Some dragState \<and>
   interactionMode dragState = Drag \<and>
   selectedLine dragState = Some routeLine \<and>
   lines dragState = [routeLine] \<and>
   labelPosition routeLine = Some \<lparr>px = 200, py = 80\<rparr> \<and>
   \<not> withinImageBounds dragState (getCanvasCoordinates browser (leftClick 50 300)) \<and>
   handleMouseMove browser (leftClick 50 300) dragState =
     Some (dragState\<lparr>lines := [routeLine\<lparr>labelPosition := Some \<lparr>px = 0, py = 0\<rparr>\<rparr>],
                    cursorPosition := Some \<lparr>px = 50, py = 300\<rparr>\<rparr>)"
proof -
  have "handleMouseMove browser (leftClick 50 300) dragState =
     Some (dragState\<lparr>lines := [routeLine\<lparr>labelPosition := Some \<lparr>px = 0, py = 0\<rparr>\<rparr>],
                    cursorPosition := Some \<lparr>px = 50, py = 300\<rparr>\<rparr>)"
    by (simp add: handleMouseMove_def handleUpdateLabelPosition_def scene_defs dragState_def viewport_defs
        Let_def)
  moreover have
    "\<not> withinImageBounds dragState (getCanvasCoordinates browser (leftClick 50 300))"
    by (simp add: scene_defs dragState_def viewport_defs Let_def)
  ultimately show ?thesis
    using press_on_label press_on_selected_label by (simp add: scene_defs dragState_def)
qed

section \<open>Points outside the image\<close>

lemma labelAnchor_total:
  "labelPosition line \<noteq> None \<or> points line \<noteq> [] \<Longrightarrow>
   \<exists>a. labelAnchor ox oy es line = Some a"
  by (cases "labelPosition line") (auto simp add: labelAnchor_def Let_def)

lemma isPointNearLabel_total:
  assumes "labelPosition line \<noteq> None \<or> points line \<noteq> []"
  shows "\<exists>b. isPointNearLabel en s c line = Some b"
proof -
  obtain a where "labelAnchor (imageX s) (imageY s) (effectiveScale s) line = Some a"
    using labelAnchor_total [OF assms] by blast
  then show ?thesis
    by (auto simp add: isPointNearLabel_def Let_def split: option.splits)
qed

lemma isPointNearRotationControl_total:
  assumes "labelPosition line \<noteq> None \<or> points line \<noteq> []"
  shows "\<exists>b. isPointNearRotationControl en s c line = Some b"
proof -
  obtain a where "labelAnchor (imageX s) (imageY s) (effectiveScale s) line = Some a"
    using labelAnchor_total [OF assms] by blast
  then show ?thesis
    by (auto simp add: isPointNearRotationControl_def Let_def split: option.splits)
qed

lemma hoverScan_total:
  "list_all (\<lambda>line. labelPosition line \<noteq> None \<or> points line \<noteq> []) ls \<Longrightarrow>
   \<exists>h. hoverScan en s c ls = Some h"
proof (induction ls)
  case Nil
  then show ?case by simp
next
  case (Cons line rest)
  then have wf: "labelPosition line \<noteq> None \<or> points line \<noteq> []" by simp
  obtain b where b: "isPointNearLabel en s c line = Some b"
    using isPointNearLabel_total [OF wf] by blast
  obtain r where r: "isPointNearRotationControl en s c line = Some r"
    using isPointNearRotationControl_total [OF wf] by blast
  from Cons have "\<exists>h. hoverScan en s c rest = Some h" by simp
  then show ?case using b r by auto
qed

lemma handleMouseMove_draw:
  assumes "interactionMode s = Draw" and "\<not> isPanning s" and "isDrawing s"
      and "currentLine s = Some cl" and "linesWellFormed s"
  shows "\<exists>s'. handleMouseMove en e s = Some s' \<and>
           currentLine s' =
             Some (cl\<lparr>points := points cl @
                          [\<lparr>px = px (getImageCoordinates s (getCanvasCoordinates en e)),
                            py = py (getImageCoordinates s (getCanvasCoordinates en e))\<rparr>]\<rparr>)"
proof -
  obtain h where h: "hoverScan en s (getCanvasCoordinates en e) (lines s) = Some h"
    using hoverScan_total assms(5) unfolding linesWellFormed_def by blast
  show ?thesis
    using assms(1-4) h
    by (cases h) (auto simp add: handleMouseMove_def handleDrawing_def Let_def)
qed

text \<open>
  Claim C10. For a screen point outside the rendered image's rectangle the
  screen-to-image conversion returns the point \<open>(0, 0)\<close>, a plain \<open>Point\<close> with no flag.
  The same value is the conversion of the image's top-left corner, which is inside the
  rectangle (for a rectangle of nonnegative extent and nonzero effective scale). The
  callers use it as an image point: a move in draw mode appends \<open>(0, 0)\<close> to the line in
  progress, and a move in drag mode stores \<open>(0, 0)\<close> as the label position of the
  selected line.
\<close>

theorem outside_point_converts_to_origin:
  assumes "\<not> withinImageBounds s (getCanvasCoordinates en e)"
  shows "getImageCoordinates s (getCanvasCoordinates en e) = \<lparr>px = 0, py = 0\<rparr> \<and>
         (effectiveScale s \<noteq> 0 \<and> 0 \<le> width (imageSize s) * zoomLevel s \<and>
          0 \<le> height (imageSize s) * zoomLevel s \<longrightarrow>
            withinImageBounds s \<lparr>px = imageX s, py = imageY s\<rparr> \<and>
            getImageCoordinates s \<lparr>px = imageX s, py = imageY s\<rparr> = \<lparr>px = 0, py = 0\<rparr>) \<and>
         (interactionMode s = Draw \<and> \<not> isPanning s \<and> isDrawing s \<and>
          currentLine s = Some cl \<and> linesWellFormed s \<longrightarrow>
            (\<exists>s'. handleMouseMove en e s = Some s' \<and>
               currentLine s' = Some (cl\<lparr>points := points cl @ [\<lparr>px = 0, py = 0\<rparr>]\<rparr>))) \<and>
         (interactionMode s = Drag \<and> \<not> isPanning s \<and> isDraggingLabel s \<and>
          selectedLine s = Some sel \<longrightarrow>
            (\<exists>s'. handleMouseMove en e s = Some s' \<and>
               lines s' =
                 map (\<lambda>line. if line_id line = line_id sel
                              then line\<lparr>labelPosition := Some \<lparr>px = 0, py = 0\<rparr>\<rparr> else line)
                     (lines s)))"
proof -
  have o: "getImageCoordinates s (getCanvasCoordinates en e) = \<lparr>px = 0, py = 0\<rparr>"
    using assms by (rule getImageCoordinates_outside)
  have corner: "withinImageBounds s \<lparr>px = imageX s, py = imageY s\<rparr> \<and>
                getImageCoordinates s \<lparr>px = imageX s, py = imageY s\<rparr> = \<lparr>px = 0, py = 0\<rparr>"
    if "0 \<le> width (imageSize s) * zoomLevel s" "0 \<le> height (imageSize s) * zoomLevel s"
    using that by (simp add: getImageCoordinates_def withinImageBounds_def)
  have draw: "\<exists>s'. handleMouseMove en e s = Some s' \<and>
               currentLine s' = Some (cl\<lparr>points := points cl @ [\<lparr>px = 0, py = 0\<rparr>]\<rparr>)"
    if "interactionMode s = Draw" "\<not> isPanning s" "isDrawing s" "currentLine s = Some cl"
       "linesWellFormed s"
    using handleMouseMove_draw [OF that, of en e] by (simp add: o)
  have drag: "\<exists>s'. handleMouseMove en e s = Some s' \<and>
               lines s' =
                 map (\<lambda>line. if line_id line = line_id sel
                              then line\<lparr>labelPosition := Some \<lparr>px = 0, py = 0\<rparr>\<rparr> else line)
                     (lines s)"
    if "interactionMode s = Drag" "selectedLine s = Some sel" "isDraggingLabel s"
       "\<not> isPanning s"
    using handleMouseMove_drag_lines [OF that, of en e] unfolding o .
  show ?thesis using o corner draw drag by blast
qed

theorem outside_point_converts_to_origin_witness:
  "\<not> withinImageBounds pressedState (getCanvasCoordinates browser (leftClick 50 300)) \<and>
   getImageCoordinates pressedState (getCanvasCoordinates browser (leftClick 50 300)) =
     \<lparr>px = 0, py = 0\<rparr> \<and>
   withinImageBounds pressedState \<lparr>px = 100, py = 0\<rparr> \<and>
   getImageCoordinates pressedState \<lparr>px = 100, py = 0\<rparr> = \<lparr>px = 0, py = 0\<rparr> \<and>
   (\<exists>s'. handleMouseMove browser (leftClick 50 300) pressedState = Some s' \<and>
      currentLine s' =
        Some (pressedLine\<lparr>points := [\<lparr>px = 100, py = 100\<rparr>, \<lparr>px = 0, py = 0\<rparr>]\<rparr>)) \<and>
   \<not> withinImageBounds dragState (getCanvasCoordinates browser (leftClick 50 300)) \<and>
   (\<exists>s'. handleMouseMove browser (leftClick 50 300) dragState = Some s' \<and>
      lines s' = [routeLine\<lparr>labelPosition := Some \<lparr>px = 0, py = 0\<rparr>\<rparr>])"
proof -
  have a: "\<not> withinImageBounds pressedState (getCanvasCoordinates browser (leftClick 50 300))"
    by (simp add: scene_defs pressedLine_def pressedState_def dragState_def viewport_defs Let_def)
  have b: "effectiveScale pressedState \<noteq> 0" "0 \<le> width (imageSize pressedState) * zoomLevel pressedState"
    "0 \<le> height (imageSize pressedState) * zoomLevel pressedState"
    "imageX pressedState = 100" "imageY pressedState = 0"
    "interactionMode pressedState = Draw" "\<not> isPanning pressedState" "isDrawing pressedState"
    "currentLine pressedState = Some pressedLine" "linesWellFormed pressedState"
    "points pressedLine = [\<lparr>px = 100, py = 100\<rparr>]"
    by (simp_all add: scene_defs pressedLine_def pressedState_def dragState_def viewport_defs linesWellFormed_def Let_def)
  have c: "\<not> withinImageBounds dragState (getCanvasCoordinates browser (leftClick 50 300))"
    by (simp add: scene_defs pressedLine_def pressedState_def dragState_def viewport_defs Let_def)
  have d: "interactionMode dragState = Drag" "\<not> isPanning dragState" "isDraggingLabel dragState"
    "selectedLine dragState = Some routeLine" "lines dragState = [routeLine]"
    by (simp_all add: scene_defs pressedLine_def pressedState_def dragState_def)
  show ?thesis
    using outside_point_converts_to_origin [OF a, of pressedLine routeLine]
      outside_point_converts_to_origin [OF c, of pressedLine routeLine] a b c d
    by simp
qed

section \<open>Stroke hit testing\<close>






section \<open>Pressing on empty space\<close>

lemma firstLabelAt_none:
  "(\<And>line. line \<in> set ls \<Longrightarrow> label line \<noteq> [] \<Longrightarrow> isPointNearLabel en s c line = Some False)
   \<Longrightarrow> firstLabelAt en s c ls = Some None"
  by (induction ls) simp_all

lemma selectedLineDown_none:
  "isPointNearRotationControl en s c sel = Some False \<Longrightarrow>
   isPointNearLabel en s c sel = Some False \<Longrightarrow>
   selectedLineDown en s c sel s1 = Some None"
  by (simp add: selectedLineDown_def)

lemma handleMouseDown_empty_space:
  assumes "\<not> (button e = 1 \<or> (button e = 0 \<and> shiftKey e))"
      and "\<And>sel. selectedLine s = Some sel \<Longrightarrow> hoveredLabel s = Some (line_id sel) \<Longrightarrow>
             isPointNearRotationControl en s (getCanvasCoordinates en e) sel = Some False \<and>
             isPointNearLabel en s (getCanvasCoordinates en e) sel = Some False"
      and "\<And>line. line \<in> set (lines s) \<Longrightarrow> label line \<noteq> [] \<Longrightarrow>
             isPointNearLabel en s (getCanvasCoordinates en e) line = Some False"
      and "findLineAtPoint s (getImageCoordinates s (getCanvasCoordinates en e)) = None"
  shows "handleMouseDown en e s =
           Some (handleStartDrawing en
                   (px (getImageCoordinates s (getCanvasCoordinates en e)))
                   (py (getImageCoordinates s (getCanvasCoordinates en e)))
                   (s\<lparr>cursorPosition := Some (getCanvasCoordinates en e),
                      interactionMode := Draw\<rparr>))"
proof -
  have sel: "(case selectedLine s of
                None \<Rightarrow> Some None
              | Some sel \<Rightarrow>
                  if hoveredLabel s = Some (line_id sel)
                  then selectedLineDown en s (getCanvasCoordinates en e) sel
                         (s\<lparr>cursorPosition := Some (getCanvasCoordinates en e)\<rparr>)
                  else Some None) = Some None"
    using assms(2) by (auto split: option.splits intro: selectedLineDown_none)
  have lab: "firstLabelAt en s (getCanvasCoordinates en e) (lines s) = Some None"
    using assms(3) by (rule firstLabelAt_none)
  have btn: "(button e = 1 \<or> (button e = 0 \<and> shiftKey e)) = False"
    using assms(1) by simp
  show ?thesis
    by (simp only: handleMouseDown_def Let_def btn if_False sel lab assms(4))
      (simp add: state.defs)
qed

text \<open>
  Claim C7, as amended. A pointer-down that hits no panning trigger, no rotation
  handle, no label and, at the point the screen-to-image conversion returns, no stroke
  (on a viewport of nonzero effective scale) puts the state machine into draw mode. If
  no line is selected, it begins a new in-progress line whose point sequence is
  exactly the result of the screen-to-image conversion: the pointer's image-space
  point when the pointer is inside the rendered image's rectangle, and the point
  \<open>(0, 0)\<close> when it is outside. If a line is selected, it clears the selection and
  begins no line.
\<close>

theorem pointer_down_on_empty_space:
  assumes "\<not> (button e = 1 \<or> (button e = 0 \<and> shiftKey e))"
      and "\<And>sel. selectedLine s = Some sel \<Longrightarrow> hoveredLabel s = Some (line_id sel) \<Longrightarrow>
             isPointNearRotationControl en s (getCanvasCoordinates en e) sel = Some False \<and>
             isPointNearLabel en s (getCanvasCoordinates en e) sel = Some False"
      and "\<And>line. line \<in> set (lines s) \<Longrightarrow> label line \<noteq> [] \<Longrightarrow>
             isPointNearLabel en s (getCanvasCoordinates en e) line = Some False"
      and "findLineAtPoint s (getImageCoordinates s (getCanvasCoordinates en e)) = None"
      and "effectiveScale s \<noteq> 0"
  shows "\<exists>s'. handleMouseDown en e s = Some s' \<and> interactionMode s' = Draw \<and>
           (selectedLine s = None \<longrightarrow>
              isDrawing s' \<and>
              (\<exists>cl. currentLine s' = Some cl \<and>
                 points cl =
                   [if withinImageBounds s (getCanvasCoordinates en e)
                    then \<lparr>px = (px (getCanvasCoordinates en e) - imageX s) / effectiveScale s,
                          py = (py (getCanvasCoordinates en e) - imageY s) / effectiveScale s\<rparr>
                    else \<lparr>px = 0, py = 0\<rparr>])) \<and>
           (selectedLine s \<noteq> None \<longrightarrow>
              selectedLine s' = None \<and> currentLine s' = currentLine s \<and>
              isDrawing s' = isDrawing s)"
proof -
  have eq: "getImageCoordinates s (getCanvasCoordinates en e) =
              (if withinImageBounds s (getCanvasCoordinates en e)
               then \<lparr>px = (px (getCanvasCoordinates en e) - imageX s) / effectiveScale s,
                     py = (py (getCanvasCoordinates en e) - imageY s) / effectiveScale s\<rparr>
               else \<lparr>px = 0, py = 0\<rparr>)"
    by (simp add: getImageCoordinates_def)
  have "\<exists>s'. handleMouseDown en e s = Some s' \<and> interactionMode s' = Draw \<and>
           (selectedLine s = None \<longrightarrow>
              isDrawing s' \<and>
              (\<exists>cl. currentLine s' = Some cl \<and>
                 points cl = [getImageCoordinates s (getCanvasCoordinates en e)])) \<and>
           (selectedLine s \<noteq> None \<longrightarrow>
              selectedLine s' = None \<and> currentLine s' = currentLine s \<and>
              isDrawing s' = isDrawing s)"
    using handleMouseDown_empty_space [OF assms(1-4)]
    by (simp add: handleStartDrawing_def Let_def)
  then show ?thesis unfolding eq .
qed

theorem pointer_down_on_empty_space_witness:
  "selectedLine loadedState = None \<and> effectiveScale loadedState \<noteq> 0 \<and>
   withinImageBounds loadedState (getCanvasCoordinates browser (leftClick 250 150)) \<and>
   (\<exists>s'. handleMouseDown browser (leftClick 250 150) loadedState = Some s' \<and>
      interactionMode s' = Draw \<and> isDrawing s' \<and>
      (\<exists>cl. currentLine s' = Some cl \<and> points cl = [\<lparr>px = 100, py = 100\<rparr>])) \<and>
   \<not> withinImageBounds loadedState (getCanvasCoordinates browser (leftClick 50 300)) \<and>
   (\<exists>s'. handleMouseDown browser (leftClick 50 300) loadedState = Some s' \<and>
      interactionMode s' = Draw \<and> isDrawing s' \<and>
      (\<exists>cl. currentLine s' = Some cl \<and> points cl = [\<lparr>px = 0, py = 0\<rparr>])) \<and>
   selectedLine selectedState = Some routeLine \<and>
   (\<exists>s'. handleMouseDown browser (leftClick 400 450) selectedState = Some s' \<and>
      interactionMode s' = Draw \<and> selectedLine s' = None \<and>
      currentLine s' = None \<and> \<not> isDrawing s')"
proof -
  have h: "\<not> (button (leftClick 250 150) = 1 \<or>
              (button (leftClick 250 150) = 0 \<and> shiftKey (leftClick 250 150)))"
    "findLineAtPoint loadedState
       (getImageCoordinates loadedState (getCanvasCoordinates browser (leftClick 250 150))) = None"
    by (simp_all add: scene_defs viewport_defs hit_defs Let_def)
  have es: "effectiveScale loadedState \<noteq> 0" "effectiveScale selectedState \<noteq> 0"
    by (simp_all add: scene_defs viewport_defs Let_def)
  have g: "selectedLine loadedState = None" "lines loadedState = []"
    "getCanvasCoordinates browser (leftClick 250 150) = \<lparr>px = 250, py = 150\<rparr>"
    "withinImageBounds loadedState \<lparr>px = 250, py = 150\<rparr>"
    "imageX loadedState = 100" "imageY loadedState = 0" "effectiveScale loadedState = 3 / 2"
    by (simp_all add: scene_defs viewport_defs Let_def)
  have first: "\<exists>s'. handleMouseDown browser (leftClick 250 150) loadedState = Some s' \<and>
      interactionMode s' = Draw \<and> isDrawing s' \<and>
      (\<exists>cl. currentLine s' = Some cl \<and> points cl = [\<lparr>px = 100, py = 100\<rparr>])"
    using pointer_down_on_empty_space
            [of "leftClick 250 150" loadedState browser, OF h(1) _ _ h(2) es(1)]
    by (simp add: g)
  have o: "\<not> (button (leftClick 50 300) = 1 \<or>
              (button (leftClick 50 300) = 0 \<and> shiftKey (leftClick 50 300)))"
    "findLineAtPoint loadedState
       (getImageCoordinates loadedState (getCanvasCoordinates browser (leftClick 50 300))) = None"
    by (simp_all add: scene_defs viewport_defs hit_defs Let_def)
  have og: "getCanvasCoordinates browser (leftClick 50 300) = \<lparr>px = 50, py = 300\<rparr>"
    "\<not> withinImageBounds loadedState \<lparr>px = 50, py = 300\<rparr>"
    by (simp_all add: scene_defs viewport_defs Let_def)
  have outside: "\<exists>s'. handleMouseDown browser (leftClick 50 300) loadedState = Some s' \<and>
      interactionMode s' = Draw \<and> isDrawing s' \<and>
      (\<exists>cl. currentLine s' = Some cl \<and> points cl = [\<lparr>px = 0, py = 0\<rparr>])"
    using pointer_down_on_empty_space
            [of "leftClick 50 300" loadedState browser, OF o(1) _ _ o(2) es(1)]
    by (simp add: g(1,2) og)
  have k: "\<not> (button (leftClick 400 450) = 1 \<or>
              (button (leftClick 400 450) = 0 \<and> shiftKey (leftClick 400 450)))"
    "findLineAtPoint selectedState
       (getImageCoordinates selectedState (getCanvasCoordinates browser (leftClick 400 450))) = None"
    by (simp_all add: scene_defs viewport_defs hit_defs Let_def sqrt_less_iff_sq)
  have far: "isPointNearRotationControl browser selectedState
               (getCanvasCoordinates browser (leftClick 400 450)) routeLine = Some False \<and>
             isPointNearLabel browser selectedState
               (getCanvasCoordinates browser (leftClick 400 450)) routeLine = Some False"
    by (simp add: scene_defs viewport_defs hit_defs Let_def sqrt_le_iff_sq)
  have m: "selectedLine selectedState = Some routeLine" "lines selectedState = [routeLine]"
    "currentLine selectedState = None" "\<not> isDrawing selectedState"
    by (simp_all add: scene_defs)
  have second: "\<exists>s'. handleMouseDown browser (leftClick 400 450) selectedState = Some s' \<and>
      interactionMode s' = Draw \<and> selectedLine s' = None \<and>
      currentLine s' = None \<and> \<not> isDrawing s'"
    using pointer_down_on_empty_space
            [of "leftClick 400 450" selectedState browser, OF k(1) _ _ k(2) es(2)]
      far
    by (simp add: m)
  have w: "withinImageBounds loadedState (getCanvasCoordinates browser (leftClick 250 150))"
    "\<not> withinImageBounds loadedState (getCanvasCoordinates browser (leftClick 50 300))"
    by (simp_all add: g og)
  show ?thesis using first outside second g(1) m(1) es(1) w by blast
qed

text \<open>
  The claim as stated fails in two ways. With a line selected, a press at screen
  \<open>(400, 450)\<close>, image \<open>(200, 300)\<close>, hits neither the rotation handle nor the label nor
  the stroke of the selected line; the handler enters draw mode, clears the selection
  and begins no in-progress line. With no line selected, a press at screen
  \<open>(50, 300)\<close>, left of the rendered image, begins a line seeded with \<open>(0, 0)\<close>, while
  the image-space position of that pointer, \<open>(50 - imageX) / effectiveScale\<close> by
  \<open>(300 - imageY) / effectiveScale\<close>, is \<open>(- 100/3, 200)\<close>.
\<close>

theorem press_with_selection_starts_no_line_counterexample:
  "selectedLine selectedState = Some routeLine \<and>
   isPointNearRotationControl browser selectedState
     (getCanvasCoordinates browser (leftClick 400 450)) routeLine = Some False \<and>
   isPointNearLabel browser selectedState
     (getCanvasCoordinates browser (leftClick 400 450)) routeLine = Some False \<and>
   findLineAtPoint selectedState
     (getImageCoordinates selectedState (getCanvasCoordinates browser (leftClick 400 450))) = None \<and>
   handleMouseDown browser (leftClick 400 450) selectedState = Some deselectedState \<and>
   interactionMode deselectedState = Draw \<and>
   selectedLine deselectedState = None \<and>
   currentLine deselectedState = None \<and> \<not> isDrawing deselectedState \<and>
   selectedLine loadedState = None \<and> lines loadedState = [] \<and>
   getCanvasCoordinates browser (leftClick 50 300) = \<lparr>px = 50, py = 300\<rparr> \<and>
   (50 - imageX loadedState) / effectiveScale loadedState = - 100 / 3 \<and>
   (300 - imageY loadedState) / effectiveScale loadedState = 200 \<and>
   handleMouseDown browser (leftClick 50 300) loadedState =
     Some (loadedState
            \<lparr>currentLine := Some (pressedLine\<lparr>points := [\<lparr>px = 0, py = 0\<rparr>]\<rparr>),
             isDrawing := True,
             cursorPosition := Some \<lparr>px = 50, py = 300\<rparr>\<rparr>)"
  by (simp add: handleMouseDown_def scene_defs deselectedState_def pressedLine_def
      viewport_defs hit_defs callback_defs Let_def sqrt_le_iff_sq sqrt_less_iff_sq)

end
